theory Spec2Isabelle
  imports Main "HOL-Library.Char_ord" "HOL-Library.List_Lexorder"
begin

section \<open>Go values used by the controllers\<close>

text \<open>
  A Go \<open>error\<close> is an interface value; the controllers only look at whether it is
  \<open>nil\<close>, at its text (\<open>err.Error()\<close>, also through the verb \<open>%v\<close>) and at the two
  predicates \<open>os.IsNotExist\<close> and \<open>errors.IsNotFound\<close>. The datatype lists the dynamic
  types that these predicates tell apart: the sentinel \<open>os.ErrNotExist\<close>, an
  \<open>*os.PathError\<close> wrapping another error, a Kubernetes \<open>*errors.StatusError\<close> with its
  reason and message, and any other error carrying only a text. A \<open>nil\<close> error is \<open>None\<close>
  of \<open>go_error option\<close>.
\<close>

datatype go_error =
    ErrNotExist
  | PathError string string go_error
  | StatusError string string
  | ErrorString string

fun Error :: "go_error \<Rightarrow> string" where
  "Error ErrNotExist = ''file does not exist''"
| "Error (PathError opn path e) = opn @ '' '' @ path @ '': '' @ Error e"
| "Error (StatusError reason msg) = msg"
| "Error (ErrorString s) = s"

text \<open>\<open>os.underlyingError\<close> unwraps the path error only; \<open>os.IsNotExist\<close> compares what is
  left with the sentinel. A status error is never a file-system error.\<close>

fun underlyingError :: "go_error \<Rightarrow> go_error" where
  "underlyingError (PathError opn path e) = e"
| "underlyingError e = e"

definition os_IsNotExist :: "go_error \<Rightarrow> bool" where
  "os_IsNotExist e = (underlyingError e = ErrNotExist)"

text \<open>\<open>errors.IsNotFound\<close> of \<open>k8s.io/apimachinery/pkg/api/errors\<close>: the reason of a
  status error is \<open>NotFound\<close>.\<close>

fun errors_IsNotFound :: "go_error \<Rightarrow> bool" where
  "errors_IsNotFound (StatusError reason msg) = (reason = ''NotFound'')"
| "errors_IsNotFound e = False"

text \<open>\<open>errors.NewNotFound(resource, name)\<close>: a status error of reason \<open>NotFound\<close> whose
  message is \<open>resource "name" not found\<close>.\<close>

definition NewNotFound :: "string \<Rightarrow> string \<Rightarrow> go_error" where
  "NewNotFound resource name =
     StatusError ''NotFound'' (resource @ '' '' @ [CHR 0x22] @ name @ [CHR 0x22] @ '' not found'')"

text \<open>\<open>strings.HasSuffix\<close>.\<close>

definition HasSuffix :: "string \<Rightarrow> string \<Rightarrow> bool" where
  "HasSuffix s suffix =
     (length s \<ge> length suffix \<and> drop (length s - length suffix) s = suffix)"

section \<open>Operator conditions\<close>

datatype ConditionStatus = ConditionTrue | ConditionFalse | ConditionUnknown

text \<open>The fields of \<open>operatorv1.OperatorCondition\<close> that the controller sets; the
  transition time keeps its zero value in every condition built here.\<close>

record OperatorCondition =
  Type :: string
  Status :: ConditionStatus
  Reason :: string
  Message :: string

text \<open>\<open>knownConditionNames\<close> is a \<open>sets.String\<close>; its method \<open>List\<close> returns the members
  sorted, strings being compared byte by byte.\<close>

definition knownConditionNames :: "string set" where
  "knownConditionNames =
     {''WellKnownRouteDegraded'', ''WellKnownAuthConfigDegraded'',
      ''WellKnownProgressing'', ''WellKnownAvailable''}"

definition StringSet_List :: "string set \<Rightarrow> string list" where
  "StringSet_List s = sorted_list_of_set s"

text \<open>\<open>v1helpers.FindOperatorCondition\<close>: the first condition of the given type.\<close>

fun FindOperatorCondition :: "OperatorCondition list \<Rightarrow> string \<Rightarrow> OperatorCondition option" where
  "FindOperatorCondition [] conditionType = None"
| "FindOperatorCondition (c # cs) conditionType =
     (if Type c = conditionType then Some c else FindOperatorCondition cs conditionType)"

section \<open>The well-known readiness controller: \<open>sync\<close>\<close>

text \<open>Lines 98 to 116 of \<open>sync\<close>: the findings added for the result
  \<open>(ready, conditionMessage, err)\<close> of the readiness check.\<close>

definition wellKnownConditions :: "bool \<Rightarrow> string \<Rightarrow> go_error option \<Rightarrow> OperatorCondition list" where
  "wellKnownConditions ready conditionMessage err =
     (if \<not> ready then
        (let conditionMessage =
               (if length conditionMessage = 0 \<and> err \<noteq> None
                then Error (the err) else conditionMessage)
         in if length conditionMessage > 0 then
              [\<lparr>Type = ''WellKnownProgressing'', Status = ConditionTrue, Reason = ''NotReady'',
                Message = ''The well-known endpoint is not yet avaiable: '' @ conditionMessage\<rparr>,
               \<lparr>Type = ''WellKnownAvailable'', Status = ConditionFalse, Reason = ''NotReady'',
                Message = ''THe well-known endpoint is not yet available: '' @ conditionMessage\<rparr>]
            else [])
      else [])"

text \<open>Lines 119 to 133 of \<open>sync\<close>: one condition per known type, the default
  overwritten by the first finding of that type. The loop appends to
  \<open>updateConditionFuncs\<close>; the list of the conditions these functions set is what
  \<open>UpdateStatus\<close> receives.\<close>

definition updatedCondition :: "OperatorCondition list \<Rightarrow> string \<Rightarrow> OperatorCondition" where
  "updatedCondition foundConditions conditionType =
     (let updatedCondition = \<lparr>Type = conditionType, Status = ConditionFalse, Reason = [], Message = []\<rparr>;
          updatedCondition =
            (if HasSuffix conditionType ''Available''
             then updatedCondition\<lparr>Status := ConditionTrue\<rparr> else updatedCondition)
      in case FindOperatorCondition foundConditions conditionType of
           Some condition \<Rightarrow> condition
         | None \<Rightarrow> updatedCondition)"

fun updateConditionLoop ::
  "string list \<Rightarrow> OperatorCondition list \<Rightarrow> OperatorCondition list \<Rightarrow> OperatorCondition list" where
  "updateConditionLoop [] foundConditions updateConditionFuncs = updateConditionFuncs"
| "updateConditionLoop (conditionType # rest) foundConditions updateConditionFuncs =
     updateConditionLoop rest foundConditions
       (updateConditionFuncs @ [updatedCondition foundConditions conditionType])"

definition updateConditions :: "OperatorCondition list \<Rightarrow> OperatorCondition list" where
  "updateConditions foundConditions =
     updateConditionLoop (StringSet_List knownConditionNames) foundConditions []"

text \<open>Lines 87 to 117 of \<open>sync\<close>: the findings of one cycle, from the conditions of the
  two lookups and the result of the readiness check. The check runs only when both
  objects were found; \<open>None\<close> stands for a cycle in which it did not run.\<close>

definition foundConditions ::
  "OperatorCondition list \<Rightarrow> OperatorCondition list \<Rightarrow> (bool \<times> string \<times> go_error option) option
     \<Rightarrow> OperatorCondition list" where
  "foundConditions configConditions routeConditions check =
     configConditions @ routeConditions @
       (case check of
          None \<Rightarrow> []
        | Some (ready, conditionMessage, err) \<Rightarrow> wellKnownConditions ready conditionMessage err)"

section \<open>Properties of the aggregation\<close>

lemma knownConditionNames_List:
  "StringSet_List knownConditionNames =
     [''WellKnownAuthConfigDegraded'', ''WellKnownAvailable'',
      ''WellKnownProgressing'', ''WellKnownRouteDegraded'']"
  unfolding StringSet_List_def knownConditionNames_def
  by code_simp

lemma updateConditionLoop_map:
  "updateConditionLoop ts found acc = acc @ map (updatedCondition found) ts"
  by (induction ts arbitrary: acc) simp_all

lemma updateConditions_map:
  "updateConditions found =
     map (updatedCondition found)
       [''WellKnownAuthConfigDegraded'', ''WellKnownAvailable'',
        ''WellKnownProgressing'', ''WellKnownRouteDegraded'']"
  by (simp only: updateConditions_def knownConditionNames_List updateConditionLoop_map append_Nil)

lemma FindOperatorCondition_Type:
  "FindOperatorCondition cs t = Some c \<Longrightarrow> Type c = t"
  by (induction cs) (auto split: if_splits)

lemma updatedCondition_Type: "Type (updatedCondition found t) = t"
  by (auto simp: updatedCondition_def Let_def FindOperatorCondition_Type split: option.splits)

lemma FindOperatorCondition_append:
  "FindOperatorCondition (xs @ ys) t =
     (case FindOperatorCondition xs t of Some c \<Rightarrow> Some c | None \<Rightarrow> FindOperatorCondition ys t)"
  by (induction xs) simp_all

text \<open>
  Claim C1. Whatever the findings are, the list of conditions built for the status
  update holds the four known types, each once and in the sorted order of the set, and
  nothing else.
\<close>

theorem updateConditions_types:
  "map Type (updateConditions found) =
     [''WellKnownAuthConfigDegraded'', ''WellKnownAvailable'',
      ''WellKnownProgressing'', ''WellKnownRouteDegraded'']
   \<and> set (map Type (updateConditions found)) = knownConditionNames
   \<and> distinct (map Type (updateConditions found))
   \<and> length (updateConditions found) = 4"
proof -
  have types: "map Type (updateConditions found) =
     [''WellKnownAuthConfigDegraded'', ''WellKnownAvailable'',
      ''WellKnownProgressing'', ''WellKnownRouteDegraded'']"
    by (simp add: updateConditions_map updatedCondition_Type)
  have members: "set (map Type (updateConditions found)) = knownConditionNames"
    unfolding types knownConditionNames_def by auto
  have dist: "distinct (map Type (updateConditions found))"
    unfolding types by simp
  have len: "length (updateConditions found) = 4"
    by (simp add: updateConditions_map)
  from types members dist len show ?thesis by blast
qed

lemma FindOperatorCondition_map_updated:
  "distinct ts \<Longrightarrow> t \<in> set ts \<Longrightarrow>
     FindOperatorCondition (map (updatedCondition found) ts) t = Some (updatedCondition found t)"
  by (induction ts) (auto simp: updatedCondition_Type)

lemma FindOperatorCondition_updateConditions:
  "t \<in> knownConditionNames \<Longrightarrow>
     FindOperatorCondition (updateConditions found) t = Some (updatedCondition found t)"
  unfolding updateConditions_map
  by (rule FindOperatorCondition_map_updated) (simp_all add: knownConditionNames_def, blast)

lemma updatedCondition_idem:
  "t \<in> knownConditionNames \<Longrightarrow>
     updatedCondition (updateConditions found) t = updatedCondition found t"
  by (simp add: updatedCondition_def [of "updateConditions found"] Let_def
        FindOperatorCondition_updateConditions)

lemma updatedCondition_twice:
  "updatedCondition (found @ found) t = updatedCondition found t"
  by (simp add: updatedCondition_def FindOperatorCondition_append split: option.splits)

lemma updateConditions_empty:
  "updateConditions [] =
     [\<lparr>Type = ''WellKnownAuthConfigDegraded'', Status = ConditionFalse, Reason = [], Message = []\<rparr>,
      \<lparr>Type = ''WellKnownAvailable'', Status = ConditionTrue, Reason = [], Message = []\<rparr>,
      \<lparr>Type = ''WellKnownProgressing'', Status = ConditionFalse, Reason = [], Message = []\<rparr>,
      \<lparr>Type = ''WellKnownRouteDegraded'', Status = ConditionFalse, Reason = [], Message = []\<rparr>]"
  by (simp add: updateConditions_map updatedCondition_def HasSuffix_def)

text \<open>
  Claim C2. Aggregating is idempotent: aggregating the aggregated list again, or the
  same findings fed twice, gives the list that one aggregation gives.
\<close>

theorem updateConditions_idempotent:
  "updateConditions (updateConditions found) = updateConditions found
   \<and> updateConditions (found @ found) = updateConditions found"
proof -
  have "updateConditions (updateConditions found) =
      map (updatedCondition (updateConditions found))
        [''WellKnownAuthConfigDegraded'', ''WellKnownAvailable'',
         ''WellKnownProgressing'', ''WellKnownRouteDegraded'']"
    by (rule updateConditions_map)
  also have "\<dots> = map (updatedCondition found)
        [''WellKnownAuthConfigDegraded'', ''WellKnownAvailable'',
         ''WellKnownProgressing'', ''WellKnownRouteDegraded'']"
    by (simp add: updatedCondition_idem knownConditionNames_def)
  also have "\<dots> = updateConditions found"
    by (simp only: updateConditions_map)
  finally have again: "updateConditions (updateConditions found) = updateConditions found" .
  have twice: "updateConditions (found @ found) = updateConditions found"
    by (simp add: updateConditions_map updatedCondition_twice)
  from again twice show ?thesis by blast
qed

text \<open>
  Claim C8. A known type with no finding is emitted with status False, or True when its
  name ends in \<open>Available\<close>, with empty reason and message; a cycle whose readiness check
  reports ready, after two lookups without conditions, ends with Available True,
  Progressing False and both degraded types False.
\<close>

theorem updateConditions_default:
  "(t \<in> knownConditionNames \<and> FindOperatorCondition found t = None \<longrightarrow>
      FindOperatorCondition (updateConditions found) t =
        Some \<lparr>Type = t,
              Status = (if HasSuffix t ''Available'' then ConditionTrue else ConditionFalse),
              Reason = [], Message = []\<rparr>)
   \<and> updateConditions (foundConditions [] [] (Some (True, conditionMessage, err))) =
     [\<lparr>Type = ''WellKnownAuthConfigDegraded'', Status = ConditionFalse, Reason = [], Message = []\<rparr>,
      \<lparr>Type = ''WellKnownAvailable'', Status = ConditionTrue, Reason = [], Message = []\<rparr>,
      \<lparr>Type = ''WellKnownProgressing'', Status = ConditionFalse, Reason = [], Message = []\<rparr>,
      \<lparr>Type = ''WellKnownRouteDegraded'', Status = ConditionFalse, Reason = [], Message = []\<rparr>]"
proof -
  have dflt: "FindOperatorCondition (updateConditions found) t =
        Some \<lparr>Type = t,
              Status = (if HasSuffix t ''Available'' then ConditionTrue else ConditionFalse),
              Reason = [], Message = []\<rparr>"
    if "t \<in> knownConditionNames" "FindOperatorCondition found t = None"
    using that by (simp add: FindOperatorCondition_updateConditions updatedCondition_def)
  have "foundConditions [] [] (Some (True, conditionMessage, err)) = []"
    by (simp add: foundConditions_def wellKnownConditions_def)
  with dflt updateConditions_empty show ?thesis by simp
qed

theorem updateConditions_default_witness:
  "''WellKnownAvailable'' \<in> knownConditionNames
   \<and> FindOperatorCondition
        [\<lparr>Type = ''WellKnownRouteDegraded'', Status = ConditionTrue, Reason = ''GetFailed'',
          Message = ''x''\<rparr>] ''WellKnownAvailable'' = None
   \<and> FindOperatorCondition
        (updateConditions
          [\<lparr>Type = ''WellKnownRouteDegraded'', Status = ConditionTrue, Reason = ''GetFailed'',
            Message = ''x''\<rparr>]) ''WellKnownAvailable'' =
        Some \<lparr>Type = ''WellKnownAvailable'', Status = ConditionTrue, Reason = [], Message = []\<rparr>"
proof -
  have k: "''WellKnownAvailable'' \<in> knownConditionNames"
    by (simp add: knownConditionNames_def)
  have n: "FindOperatorCondition
        [\<lparr>Type = ''WellKnownRouteDegraded'', Status = ConditionTrue, Reason = ''GetFailed'',
          Message = ''x''\<rparr>] ''WellKnownAvailable'' = None"
    by simp
  have s: "HasSuffix ''WellKnownAvailable'' ''Available''"
    by (simp add: HasSuffix_def)
  from k n s updateConditions_default
    [of "''WellKnownAvailable''"
        "[\<lparr>Type = ''WellKnownRouteDegraded'', Status = ConditionTrue, Reason = ''GetFailed'',
           Message = ''x''\<rparr>]"]
  show ?thesis by simp
qed

text \<open>
  Claim C10. When the readiness check reports not ready with an empty message and an
  error that is nil or has an empty text, the cycle adds no finding; if the lookups gave
  no Progressing or Available condition either, the status then reports Available True
  and Progressing False.
\<close>

theorem silent_not_ready_reports_available:
  assumes "\<not> ready" and "conditionMessage = []"
    and "err = None \<or> Error (the err) = []"
    and "FindOperatorCondition (configConditions @ routeConditions) ''WellKnownAvailable'' = None"
    and "FindOperatorCondition (configConditions @ routeConditions) ''WellKnownProgressing'' = None"
  shows "wellKnownConditions ready conditionMessage err = []
    \<and> FindOperatorCondition
        (updateConditions
          (foundConditions configConditions routeConditions (Some (ready, conditionMessage, err))))
        ''WellKnownAvailable'' =
      Some \<lparr>Type = ''WellKnownAvailable'', Status = ConditionTrue, Reason = [], Message = []\<rparr>
    \<and> FindOperatorCondition
        (updateConditions
          (foundConditions configConditions routeConditions (Some (ready, conditionMessage, err))))
        ''WellKnownProgressing'' =
      Some \<lparr>Type = ''WellKnownProgressing'', Status = ConditionFalse, Reason = [], Message = []\<rparr>"
proof -
  have none: "wellKnownConditions ready conditionMessage err = []"
    using assms(1-3) by (auto simp: wellKnownConditions_def Let_def)
  then have found: "foundConditions configConditions routeConditions
      (Some (ready, conditionMessage, err)) = configConditions @ routeConditions"
    by (simp add: foundConditions_def)
  have av: "FindOperatorCondition (updateConditions (configConditions @ routeConditions))
      ''WellKnownAvailable'' =
      Some \<lparr>Type = ''WellKnownAvailable'', Status = ConditionTrue, Reason = [], Message = []\<rparr>"
    using assms(4)
    by (simp add: FindOperatorCondition_updateConditions knownConditionNames_def
          updatedCondition_def HasSuffix_def)
  have pr: "FindOperatorCondition (updateConditions (configConditions @ routeConditions))
      ''WellKnownProgressing'' =
      Some \<lparr>Type = ''WellKnownProgressing'', Status = ConditionFalse, Reason = [], Message = []\<rparr>"
    using assms(5)
    by (simp add: FindOperatorCondition_updateConditions knownConditionNames_def
          updatedCondition_def HasSuffix_def)
  from none found av pr show ?thesis by simp
qed

theorem silent_not_ready_reports_available_witness:
  "wellKnownConditions False [] (Some (ErrorString [])) = []
   \<and> FindOperatorCondition
        (updateConditions (foundConditions [] [] (Some (False, [], Some (ErrorString [])))))
        ''WellKnownAvailable'' =
      Some \<lparr>Type = ''WellKnownAvailable'', Status = ConditionTrue, Reason = [], Message = []\<rparr>
   \<and> FindOperatorCondition
        (updateConditions (foundConditions [] [] (Some (False, [], Some (ErrorString [])))))
        ''WellKnownProgressing'' =
      Some \<lparr>Type = ''WellKnownProgressing'', Status = ConditionFalse, Reason = [], Message = []\<rparr>"
  using silent_not_ready_reports_available
    [of False "[]" "Some (ErrorString [])" "[]" "[]"]
  by simp

end
